theory Spec2Isabelle
  imports Main "HOL-Library.Word" "HOL-Library.Log_Nat"
begin

section \<open>Strings and bytes of the Go runtime used by the helpers\<close>

type_synonym byte = "8 word"

text \<open>
  \<^verbatim>\<open>strings.Split(s, sep)\<close> for a separator of one byte (the two call sites split on
  \<^verbatim>\<open>"/"\<close> and on \<^verbatim>\<open>","\<close>): the substrings between the separators, in order; a string
  without the separator gives the one-element slice holding the string itself.
\<close>

fun strings_Split :: "string \<Rightarrow> char \<Rightarrow> string list" where
  "strings_Split [] sep = [[]]"
| "strings_Split (c # cs) sep =
     (if c = sep then [] # strings_Split cs sep
      else (case strings_Split cs sep of
              [] \<Rightarrow> [[c]]
            | p # ps \<Rightarrow> (c # p) # ps))"

text \<open>
  A Go slice index \<^verbatim>\<open>xs[i]\<close>: a run-time panic when \<open>i\<close> is out of range, written here as
  \<open>None\<close>.
\<close>

definition index :: "'a list \<Rightarrow> nat \<Rightarrow> 'a option" where
  "index xs i = (if i < length xs then Some (xs ! i) else None)"

subsection \<open>\<^verbatim>\<open>base64.RawURLEncoding.EncodeToString\<close>\<close>

definition encodeURL :: string where
  "encodeURL = ''ABCDEFGHIJKLMNOPQRSTUVWXYZabcdefghijklmnopqrstuvwxyz0123456789-_''"

definition enc :: "nat \<Rightarrow> char" where
  "enc i = encodeURL ! (i mod 64)"

text \<open>
  Three source bytes become four digits of six bits each; a remainder of one byte gives two
  digits and a remainder of two bytes three digits. The raw encoding writes no padding.
\<close>

fun EncodeToString :: "byte list \<Rightarrow> string" where
  "EncodeToString (a # b # c # rest) =
     (let val = unat a * 65536 + unat b * 256 + unat c
      in enc (val div 262144) # enc (val div 4096) # enc (val div 64) # enc val
         # EncodeToString rest)"
| "EncodeToString [a, b] =
     (let val = unat a * 65536 + unat b * 256
      in [enc (val div 262144), enc (val div 4096), enc (val div 64)])"
| "EncodeToString [a] =
     (let val = unat a * 65536
      in [enc (val div 262144), enc (val div 4096)])"
| "EncodeToString [] = []"


section \<open>The filename generator\<close>

datatype error = Err string

text \<open>What a Go call does: it panics, or it returns an error, or it returns a value.\<close>

datatype 'a outcome = Panic | Failed error | Returned 'a

text \<open>
  \<^verbatim>\<open>rand.Read(b)\<close> on the 32-byte buffer is the one effect of \<^verbatim>\<open>getFilename\<close>; its result
  (an error, or the bytes it filled the buffer with) is an argument of the model. The extension
  is computed first, so an index panic precedes the read.
\<close>

definition getFilename :: "string \<Rightarrow> error + byte list \<Rightarrow> string outcome" where
  "getFilename mediaType rand_Read =
     (case index (strings_Split mediaType CHR ''/'') 1 of
        None \<Rightarrow> Panic
      | Some subtype \<Rightarrow>
          (let ext = ''.'' @ subtype
           in case rand_Read of
                Inl err \<Rightarrow> Failed err
              | Inr b \<Rightarrow> (let basename = EncodeToString b in Returned (basename @ ext))))"

section \<open>The float64 arithmetic of the aspect classification\<close>

text \<open>
  Go's \<^verbatim>\<open>float64\<close> is IEEE 754 binary64. A finite value is the rational number it denotes;
  every operation computes the exact result and rounds it to the nearest value with a 53-bit
  significand, ties to even. The two zeros are one value here: the only divisor that can be
  zero is a converted integer, which is the positive zero.
\<close>

datatype float64 = Finite rat | PosInf | NegInf | NaN

definition pow2 :: "int \<Rightarrow> rat" where
  "pow2 e = (if 0 \<le> e then 2 ^ nat e else 1 / 2 ^ nat (- e))"

text \<open>The binary exponent \<open>e\<close> of a non-zero \<open>x\<close>: \<open>2 ^ e \<le> \<bar>x\<bar> < 2 ^ (e + 1)\<close>.\<close>

definition exponent :: "rat \<Rightarrow> int" where
  "exponent x =
     (if 1 \<le> \<bar>x\<bar> then bitlen \<lfloor>\<bar>x\<bar>\<rfloor> - 1 else - bitlen (\<lceil>1 / \<bar>x\<bar>\<rceil> - 1))"

definition roundToEven :: "rat \<Rightarrow> int" where
  "roundToEven y =
     (let f = \<lfloor>y\<rfloor>; d = y - of_int f
      in if d < 1 / 2 then f else if 1 / 2 < d then f + 1 else if even f then f else f + 1)"

text \<open>
  Rounding to binary64: the spacing of the values around \<open>x\<close> is \<open>2 ^ (e - 52)\<close>, with the
  exponent held at \<open>-1022\<close> for the subnormal numbers; a result of magnitude \<open>2 ^ 1024\<close>
  overflows to an infinity.
\<close>

definition fl :: "rat \<Rightarrow> float64" where
  "fl x =
     (if x = 0 then Finite 0
      else (let e = max (exponent x) (- 1022);
                q = pow2 (e - 52);
                y = of_int (roundToEven (x / q)) * q
            in if 2 ^ 1024 \<le> \<bar>y\<bar> then (if 0 < x then PosInf else NegInf) else Finite y))"

definition float64_of_int :: "int \<Rightarrow> float64" where
  "float64_of_int n = fl (of_int n)"

fun fdiv :: "float64 \<Rightarrow> float64 \<Rightarrow> float64" where
  "fdiv (Finite a) (Finite b) =
     (if b = 0 then (if a = 0 then NaN else if 0 < a then PosInf else NegInf)
      else fl (a / b))"
| "fdiv NaN _ = NaN"
| "fdiv _ NaN = NaN"
| "fdiv (Finite a) _ = Finite 0"
| "fdiv PosInf (Finite b) = (if 0 \<le> b then PosInf else NegInf)"
| "fdiv NegInf (Finite b) = (if 0 \<le> b then NegInf else PosInf)"
| "fdiv _ _ = NaN"

fun fsub :: "float64 \<Rightarrow> float64 \<Rightarrow> float64" where
  "fsub (Finite a) (Finite b) = fl (a - b)"
| "fsub NaN _ = NaN"
| "fsub _ NaN = NaN"
| "fsub PosInf PosInf = NaN"
| "fsub NegInf NegInf = NaN"
| "fsub PosInf _ = PosInf"
| "fsub NegInf _ = NegInf"
| "fsub _ PosInf = NegInf"
| "fsub _ NegInf = PosInf"

fun math_Abs :: "float64 \<Rightarrow> float64" where
  "math_Abs (Finite a) = Finite \<bar>a\<bar>"
| "math_Abs PosInf = PosInf"
| "math_Abs NegInf = PosInf"
| "math_Abs NaN = NaN"

fun flt :: "float64 \<Rightarrow> float64 \<Rightarrow> bool" where
  "flt (Finite a) (Finite b) = (a < b)"
| "flt NaN _ = False"
| "flt _ NaN = False"
| "flt PosInf _ = False"
| "flt _ NegInf = False"
| "flt _ _ = True"

section \<open>The media inspector\<close>

record cmd_result =
  run_err :: "error option"
  Stdout :: string
  Stderr :: string

record stream =
  Width :: int
  Height :: int

record FFProbeResponse =
  Streams :: "stream list"

text \<open>
  Lines 80 to 93 of \<^verbatim>\<open>getVideoAspectRatio\<close>: the two dimensions are converted to
  \<^verbatim>\<open>float64\<close>, divided, and the quotient is compared with the two reference ratios. The
  constants \<^verbatim>\<open>16.0/9.0\<close>, \<^verbatim>\<open>9.0/16.0\<close> and \<^verbatim>\<open>0.1\<close> are exact in the compiler and rounded once.
  The fields are of type \<^verbatim>\<open>int\<close>, at most 64 bits wide; the bound is a hypothesis where it
  matters.
\<close>

definition aspectRatio :: "int \<Rightarrow> int \<Rightarrow> string" where
  "aspectRatio w h =
     (let width = float64_of_int w;
          height = float64_of_int h;
          ratio = fdiv width height
      in if flt (math_Abs (fsub ratio (fl (16 / 9)))) (fl (1 / 10)) then ''16:9''
         else if flt (math_Abs (fsub ratio (fl (9 / 16)))) (fl (1 / 10)) then ''9:16''
         else ''other'')"

definition ffprobe_args :: "string \<Rightarrow> string list" where
  "ffprobe_args filepath =
     [''ffprobe'', ''-v'', ''error'', ''-print_format'', ''json'', ''-show_streams'', filepath]"

text \<open>
  The external process and the JSON decoder are arguments: \<open>Run\<close> gives what running a command
  line yields, \<open>Unmarshal\<close> what decoding its standard output yields.
\<close>

definition getVideoAspectRatio ::
  "(string list \<Rightarrow> cmd_result) \<Rightarrow> (string \<Rightarrow> error + FFProbeResponse) \<Rightarrow> string \<Rightarrow> error + string"
where
  "getVideoAspectRatio Run Unmarshal filepath =
     (let cmd = Run (ffprobe_args filepath)
      in case run_err cmd of
           Some err \<Rightarrow> Inl err
         | None \<Rightarrow>
             (case Unmarshal (Stdout cmd) of
                Inl err \<Rightarrow> Inl err
              | Inr response \<Rightarrow>
                  (case Streams response of
                     [] \<Rightarrow> Inl (Err ''no streams found in video file'')
                   | s0 # _ \<Rightarrow> Inr (aspectRatio (Width s0) (Height s0)))))"

section \<open>The media normalizer\<close>

fun Error :: "error \<Rightarrow> string" where
  "Error (Err s) = s"

definition ffmpeg_args :: "string \<Rightarrow> string \<Rightarrow> string list" where
  "ffmpeg_args filePath outputPath =
     [''ffmpeg'', ''-i'', filePath, ''-c'', ''copy'', ''-movflags'', ''faststart'', ''-f'', ''mp4'',
      outputPath]"

definition processVideoForFastStart ::
  "(string list \<Rightarrow> cmd_result) \<Rightarrow> string \<Rightarrow> error + string"
where
  "processVideoForFastStart Run filePath =
     (let outputPath = filePath @ ''.processed'';
          cmd = Run (ffmpeg_args filePath outputPath)
      in case run_err cmd of
           Some err \<Rightarrow> Inl (Err (''ffmpeg error: '' @ Error err @ '', stderr: '' @ Stderr cmd))
         | None \<Rightarrow> Inr outputPath)"

section \<open>Records and signed URLs\<close>

type_synonym uuid = string

text \<open>
  \<^verbatim>\<open>database.Video\<close>: the identifier, the owner and the two optional locations (a \<^verbatim>\<open>*string\<close>
  that may be \<^verbatim>\<open>nil\<close>); the descriptive fields play no part in the handlers.
\<close>

record Video =
  ID :: uuid
  UserID :: uuid
  ThumbnailURL :: "string option"
  VideoURL :: "string option"

text \<open>
  \<^verbatim>\<open>generatePresignedURL\<close> passes the bucket and the key to the presign client, which is the
  argument \<open>PresignGetObject\<close>, and hands its answer on.
\<close>

definition generatePresignedURL ::
  "(string \<Rightarrow> string \<Rightarrow> error + string) \<Rightarrow> string \<Rightarrow> string \<Rightarrow> error + string"
where
  "generatePresignedURL PresignGetObject bucket key =
     (case PresignGetObject bucket key of
        Inl err \<Rightarrow> Inl err
      | Inr url \<Rightarrow> Inr url)"

definition dbVideoToSignedVideo ::
  "(string \<Rightarrow> string \<Rightarrow> error + string) \<Rightarrow> Video \<Rightarrow> error + Video"
where
  "dbVideoToSignedVideo PresignGetObject video =
     (case VideoURL video of
        Some url \<Rightarrow>
          (let parts = strings_Split url CHR '',''
           in if length parts \<noteq> 2
              then Inl (Err (''invalid video URL format: expected bucket,key got '' @ url))
              else (let bucket = parts ! 0; key = parts ! 1
                    in case generatePresignedURL PresignGetObject bucket key of
                         Inl err \<Rightarrow> Inl err
                       | Inr signedURL \<Rightarrow> Inr (video\<lparr>VideoURL := Some signedURL\<rparr>)))
      | None \<Rightarrow> Inr video)"

section \<open>The upload handlers\<close>

record apiConfig =
  s3Bucket :: string

text \<open>
  What the collaborators of one request answer: the identity verifier, the multipart parser,
  the local file system, the randomness source, the external processes, the JSON decoder, the
  metadata store and the object store. Each field is the result of the call of that name.
\<close>

record env =
  uuid_Parse :: "error + uuid"
  GetBearerToken :: "error + string"
  ValidateJWT :: "error + uuid"
  ParseMultipartForm :: "error option"
  FormFile :: "error option"
  GetVideo_err :: "error option"
  ParseMediaType :: "string \<times> error option"
  CreateTemp :: "error + string"
  Create :: "error option"
  Copy :: "error option"
  Seek :: "error option"
  rand_Read :: "error + byte list"
  Run :: "string list \<Rightarrow> cmd_result"
  Unmarshal :: "string \<Rightarrow> error + FFProbeResponse"
  UpdateVideo_err :: "error option"
  PresignGetObject :: "string \<Rightarrow> string \<Rightarrow> error + string"
  Open :: "error option"
  PutObject :: "error option"

text \<open>
  The calls a handler makes on the world outside of it, with their arguments: responses, the
  metadata store, the local file system, external processes and the bucket. Parsing the request,
  reading random bytes and presigning a URL change nothing there and are not logged.
\<close>

datatype call =
    Respond nat string
  | RespondJSON nat Video
  | Call_GetVideo uuid
  | Call_UpdateVideo Video
  | Call_CreateTemp string string
  | Call_Create string
  | Call_Copy "string option"
  | Call_Remove string
  | Call_Open string
  | Call_Run "string list"
  | Call_PutObject string string string string

text \<open>
  The world a handler works on: the log of its calls in the order they were made, the paths that
  exist on the local disk, and the records of the metadata store.
\<close>

record world =
  calls :: "call list"
  files :: "string set"
  db :: "uuid \<Rightarrow> Video option"

datatype exit = Returns | Panics

definition log :: "call \<Rightarrow> world \<Rightarrow> world" where
  "log c w = w\<lparr>calls := calls w @ [c]\<rparr>"

text \<open>
  Modelled from the spec: \<^verbatim>\<open>respondWithError\<close> and \<^verbatim>\<open>respondWithJSON\<close> are not among the
  sources; each writes one response with the given status code (400, 401, 500 with a message,
  200 with the record) and returns to the handler.
\<close>

definition respondWithError :: "nat \<Rightarrow> string \<Rightarrow> world \<Rightarrow> world" where
  "respondWithError code msg w = log (Respond code msg) w"

definition respondWithJSON :: "nat \<Rightarrow> Video \<Rightarrow> world \<Rightarrow> world" where
  "respondWithJSON code payload w = log (RespondJSON code payload) w"

text \<open>
  Modelled from the spec: the metadata store's \<^verbatim>\<open>get(id) -> VideoRecord | NotFound\<close> and
  \<^verbatim>\<open>update(record) -> void | error\<close>; the package \<^verbatim>\<open>internal/database\<close> is not among the
  sources. A failed update leaves the store as it was.
\<close>

definition GetVideo :: "env \<Rightarrow> uuid \<Rightarrow> world \<Rightarrow> (error + Video) \<times> world" where
  "GetVideo E videoID w =
     (case GetVideo_err E of
        Some err \<Rightarrow> (Inl err, log (Call_GetVideo videoID) w)
      | None \<Rightarrow>
          (case db w videoID of
             None \<Rightarrow> (Inl (Err ''not found''), log (Call_GetVideo videoID) w)
           | Some video \<Rightarrow> (Inr video, log (Call_GetVideo videoID) w)))"

definition UpdateVideo :: "env \<Rightarrow> Video \<Rightarrow> world \<Rightarrow> world" where
  "UpdateVideo E video w =
     (case UpdateVideo_err E of
        Some err \<Rightarrow> log (Call_UpdateVideo video) w
      | None \<Rightarrow> log (Call_UpdateVideo video) (w\<lparr>db := (db w)(ID video \<mapsto> video)\<rparr>))"

text \<open>
  \<^verbatim>\<open>os.CreateTemp(dir, pattern)\<close> creates a new file in \<open>dir\<close> whose name is the pattern
  followed by a random string (the pattern here holds no \<^verbatim>\<open>*\<close>); the random string is what
  the environment answers. It returns the open file, or \<^verbatim>\<open>nil\<close> and an error.
\<close>

definition os_CreateTemp :: "env \<Rightarrow> string \<Rightarrow> string \<Rightarrow> world \<Rightarrow> (error + string) \<times> world" where
  "os_CreateTemp E dir pattern w =
     (case CreateTemp E of
        Inl err \<Rightarrow> (Inl err, log (Call_CreateTemp dir pattern) w)
      | Inr random \<Rightarrow>
          (let name = dir @ ''/'' @ pattern @ random
           in (Inr name, log (Call_CreateTemp dir pattern) (w\<lparr>files := insert name (files w)\<rparr>))))"

definition os_Create :: "env \<Rightarrow> string \<Rightarrow> world \<Rightarrow> error option \<times> world" where
  "os_Create E name w =
     (case Create E of
        Some err \<Rightarrow> (Some err, log (Call_Create name) w)
      | None \<Rightarrow> (None, log (Call_Create name) (w\<lparr>files := insert name (files w)\<rparr>)))"

definition os_Remove :: "string \<Rightarrow> world \<Rightarrow> world" where
  "os_Remove name w = log (Call_Remove name) (w\<lparr>files := files w - {name}\<rparr>)"

text \<open>The map literal of lines 122 to 126; a key that is absent reads as the empty string.\<close>

definition prefixes :: "string \<Rightarrow> string" where
  "prefixes k =
     (case map_of [(''16:9'', ''landscape''), (''9:16'', ''portrait''), (''other'', ''other'')] k of
        None \<Rightarrow> []
      | Some v \<Rightarrow> v)"

subsection \<open>\<^verbatim>\<open>handlerUploadVideo\<close>\<close>

text \<open>
  Lines 142 to 165: normalise the staged file, open the copy and put it into the bucket. The
  removal of the copy is deferred once it has been opened. A run of \<^verbatim>\<open>ffmpeg\<close> that exits
  with status zero has written its output file.
\<close>

definition publish ::
  "apiConfig \<Rightarrow> env \<Rightarrow> string \<Rightarrow> string \<Rightarrow> string \<Rightarrow> world \<Rightarrow> world \<times> exit"
where
  "publish cfg E mediaType key name w0 =
     (let w1 = log (Call_Run (ffmpeg_args name (name @ ''.processed''))) w0
      in case processVideoForFastStart (Run E) name of
           Inl err \<Rightarrow> (respondWithError 500 ''Unable to upload video to s3'' w1, Returns)
         | Inr processedFilePath \<Rightarrow>
             (let w2 = w1\<lparr>files := insert processedFilePath (files w1)\<rparr>;
                  w3 = log (Call_Open processedFilePath) w2
              in case Open E of
                   Some err \<Rightarrow> (respondWithError 500 ''Unable to upload video to s3'' w3, Returns)
                 | None \<Rightarrow>
                     (let w4 = log (Call_PutObject (s3Bucket cfg) key processedFilePath mediaType) w3;
                          w5 = (case PutObject E of
                                  Some err \<Rightarrow> respondWithError 500 ''Unable to upload video to S3'' w4
                                | None \<Rightarrow> w4)
                      in (os_Remove processedFilePath w5, Returns))))"

text \<open>
  Lines 107 to 140: generate the key, probe the staged file, prefix the key, write the location
  into the record and sign it. \<^verbatim>\<open>tmpFile.Name()\<close> on a \<^verbatim>\<open>nil\<close> file is a panic.
\<close>

definition store ::
  "apiConfig \<Rightarrow> env \<Rightarrow> Video \<Rightarrow> string \<Rightarrow> string option \<Rightarrow> world \<Rightarrow> world \<times> exit"
where
  "store cfg E metadata mediaType tmpFile w0 =
     (case getFilename mediaType (rand_Read E) of
        Panic \<Rightarrow> (w0, Panics)
      | Failed err \<Rightarrow> (respondWithError 500 ''Unable to upload video to s3'' w0, Returns)
      | Returned key0 \<Rightarrow>
          (case tmpFile of
             None \<Rightarrow> (w0, Panics)
           | Some name \<Rightarrow>
               (let w1 = log (Call_Run (ffprobe_args name)) w0
                in case getVideoAspectRatio (Run E) (Unmarshal E) name of
                     Inl err \<Rightarrow> (respondWithError 500 ''Unable to upload video to s3'' w1, Returns)
                   | Inr aspect \<Rightarrow>
                       (let prefix = prefixes aspect;
                            key = prefix @ ''/'' @ key0;
                            videoUrl = s3Bucket cfg @ '','' @ key;
                            metadata1 = metadata\<lparr>VideoURL := Some videoUrl\<rparr>;
                            w2 = UpdateVideo E metadata1 w1
                        in case dbVideoToSignedVideo (PresignGetObject E) metadata1 of
                             Inl err \<Rightarrow>
                               (respondWithError 500 ''Unable to upload video to s3'' w2, Returns)
                           | Inr metadata2 \<Rightarrow> publish cfg E mediaType key name w2))))"

text \<open>
  Writing to and seeking in the temporary file: on a \<^verbatim>\<open>nil\<close> file both fail with
  \<^verbatim>\<open>os.ErrInvalid\<close>, on an open file the environment decides.
\<close>

definition write_err :: "string option \<Rightarrow> error option \<Rightarrow> error option" where
  "write_err tmpFile answer =
     (case tmpFile of None \<Rightarrow> Some (Err ''invalid argument'') | Some name \<Rightarrow> answer)"

text \<open>
  Lines 77 to 105: read the media type, create the temporary file and copy the upload into it.
  None of the five error branches returns. The deferred \<^verbatim>\<open>os.Remove\<close> of line 92 runs when the
  handler returns and when it panics.
\<close>

definition stage :: "apiConfig \<Rightarrow> env \<Rightarrow> Video \<Rightarrow> world \<Rightarrow> world \<times> exit" where
  "stage cfg E metadata w0 =
     (let mediaType = fst (ParseMediaType E);
          w1 = (case snd (ParseMediaType E) of
                  Some err \<Rightarrow> respondWithError 500 ''Unable to parse Content-Type header'' w0
                | None \<Rightarrow> w0);
          w2 = (if mediaType \<noteq> ''video/mp4''
                then respondWithError 400 ''Video must be in mp4 format'' w1 else w1);
          created = os_CreateTemp E ''/tmp'' ''tubely-upload.mp4'' w2;
          tmpFile = (case fst created of Inl err \<Rightarrow> None | Inr name \<Rightarrow> Some name);
          w3 = (case fst created of
                  Inl err \<Rightarrow> respondWithError 500 ''Unable to save temporary file'' (snd created)
                | Inr name \<Rightarrow> snd created);
          w4 = log (Call_Copy tmpFile) w3;
          w5 = (case write_err tmpFile (Copy E) of
                  Some err \<Rightarrow> respondWithError 500 ''Unable to write to temporary file'' w4
                | None \<Rightarrow> w4);
          w6 = (case write_err tmpFile (Seek E) of
                  Some err \<Rightarrow> respondWithError 500 ''Unable to reset pointer'' w5
                | None \<Rightarrow> w5);
          done = store cfg E metadata mediaType tmpFile w6
      in (os_Remove ''/tmp/tubely-upload.mp4'' (fst done), snd done))"

text \<open>Lines 32 to 75: the identifier, the caller, the form and the ownership check.\<close>

definition handlerUploadVideo :: "apiConfig \<Rightarrow> env \<Rightarrow> world \<Rightarrow> world \<times> exit" where
  "handlerUploadVideo cfg E w0 =
     (case uuid_Parse E of
        Inl err \<Rightarrow> (respondWithError 400 ''Invalid ID'' w0, Returns)
      | Inr videoID \<Rightarrow>
     (case GetBearerToken E of
        Inl err \<Rightarrow> (respondWithError 401 ''Missing token'' w0, Returns)
      | Inr token \<Rightarrow>
     (case ValidateJWT E of
        Inl err \<Rightarrow> (respondWithError 401 ''Invalid token'' w0, Returns)
      | Inr userID \<Rightarrow>
     (case ParseMultipartForm E of
        Some err \<Rightarrow> (respondWithError 400 ''Unable to parse form'' w0, Returns)
      | None \<Rightarrow>
     (case FormFile E of
        Some err \<Rightarrow> (respondWithError 400 ''Unable to parse uploaded file'' w0, Returns)
      | None \<Rightarrow>
     (case GetVideo E videoID w0 of
        (Inl err, w1) \<Rightarrow> (respondWithError 500 ''Unable to get video metadata'' w1, Returns)
      | (Inr metadata, w1) \<Rightarrow>
          if UserID metadata \<noteq> userID
          then (respondWithError 401 ''User does not have access to this video'' w1, Returns)
          else stage cfg E metadata w1))))))"

subsection \<open>\<^verbatim>\<open>handlerUploadThumbnail\<close>\<close>

text \<open>
  Lines 61 to 89 of the thumbnail handler: the two media-type branches and the branch for a
  failed \<^verbatim>\<open>os.Create\<close> do not return.
\<close>

definition write_thumbnail :: "apiConfig \<Rightarrow> env \<Rightarrow> Video \<Rightarrow> world \<Rightarrow> world \<times> exit" where
  "write_thumbnail cfg E metadata w0 =
     (let mediaType = fst (ParseMediaType E);
          w1 = (case snd (ParseMediaType E) of
                  Some err \<Rightarrow> respondWithError 500 ''Unable to parse Content-Type header'' w0
                | None \<Rightarrow> w0);
          w2 = (if mediaType \<noteq> ''image/png'' \<and> mediaType \<noteq> ''image/jpeg''
                then respondWithError 400 ''Thumbnail must be image/png or image/jpeg mime type'' w1
                else w1)
      in case getFilename mediaType (rand_Read E) of
           Panic \<Rightarrow> (w2, Panics)
         | Failed err \<Rightarrow> (respondWithError 500 ''Unable to upload file'' w2, Returns)
         | Returned filePath \<Rightarrow>
             (let created = os_Create E filePath w2;
                  w3 = (case fst created of
                          Some err \<Rightarrow> respondWithError 500 ''Unable to upload thumbnail'' (snd created)
                        | None \<Rightarrow> snd created);
                  w4 = log (Call_Copy (case fst created of Some err \<Rightarrow> None | None \<Rightarrow> Some filePath)) w3;
                  thumbnailUrl = ''http://localhost:8091/'' @ filePath;
                  metadata1 = metadata\<lparr>ThumbnailURL := Some thumbnailUrl\<rparr>;
                  w5 = UpdateVideo E metadata1 w4
              in (respondWithJSON 200 metadata1 w5, Returns)))"

definition handlerUploadThumbnail :: "apiConfig \<Rightarrow> env \<Rightarrow> world \<Rightarrow> world \<times> exit" where
  "handlerUploadThumbnail cfg E w0 =
     (case uuid_Parse E of
        Inl err \<Rightarrow> (respondWithError 400 ''Invalid ID'' w0, Returns)
      | Inr videoID \<Rightarrow>
     (case GetBearerToken E of
        Inl err \<Rightarrow> (respondWithError 401 ''Couldn't find JWT'' w0, Returns)
      | Inr token \<Rightarrow>
     (case ValidateJWT E of
        Inl err \<Rightarrow> (respondWithError 401 ''Couldn't validate JWT'' w0, Returns)
      | Inr userID \<Rightarrow>
     (case ParseMultipartForm E of
        Some err \<Rightarrow> (respondWithError 400 ''Unable to parse form'' w0, Returns)
      | None \<Rightarrow>
     (case FormFile E of
        Some err \<Rightarrow> (respondWithError 400 ''Unable to parse uploaded file'' w0, Returns)
      | None \<Rightarrow>
     (case GetVideo E videoID w0 of
        (Inl err, w1) \<Rightarrow> (respondWithError 500 ''Unable to get video metadata'' w1, Returns)
      | (Inr metadata, w1) \<Rightarrow>
          if UserID metadata \<noteq> userID
          then (respondWithError 401 ''User does not have access to this video'' w1, Returns)
          else write_thumbnail cfg E metadata w1))))))"

section \<open>A concrete request\<close>

text \<open>
  One upload, used to run the handlers: user \<open>alice\<close> uploads an mp4 of 1920 by 1080 pixels for
  her video \<open>v1\<close>; every collaborator succeeds, the temporary file gets the random suffix
  \<open>123\<close> and the randomness source yields 32 zero bytes.
\<close>

definition demo_cfg :: apiConfig where
  "demo_cfg = \<lparr>s3Bucket = ''tubely''\<rparr>"

definition demo_video :: Video where
  "demo_video = \<lparr>ID = ''v1'', UserID = ''alice'', ThumbnailURL = None, VideoURL = None\<rparr>"

definition demo_world :: world where
  "demo_world = \<lparr>calls = [], files = {}, db = [''v1'' \<mapsto> demo_video]\<rparr>"

definition demo_env :: env where
  "demo_env =
     \<lparr>uuid_Parse = Inr ''v1'', GetBearerToken = Inr ''token'', ValidateJWT = Inr ''alice'',
      ParseMultipartForm = None, FormFile = None, GetVideo_err = None,
      ParseMediaType = (''video/mp4'', None), CreateTemp = Inr ''123'', Create = None,
      Copy = None, Seek = None, rand_Read = Inr (replicate 32 0),
      Run = (\<lambda>args. \<lparr>run_err = None, Stdout = ''streams'', Stderr = []\<rparr>),
      Unmarshal = (\<lambda>out. Inr \<lparr>Streams = [\<lparr>Width = 1920, Height = 1080\<rparr>]\<rparr>),
      UpdateVideo_err = None,
      PresignGetObject = (\<lambda>bucket key. Inr (''https://'' @ bucket @ ''/'' @ key)),
      Open = None, PutObject = None\<rparr>"

text \<open>The same machine with an \<^verbatim>\<open>ffmpeg\<close> that exits with status 1.\<close>

definition failing_ffmpeg :: "string list \<Rightarrow> cmd_result" where
  "failing_ffmpeg args =
     (if take 1 args = [''ffmpeg'']
      then \<lparr>run_err = Some (Err ''exit status 1''), Stdout = [], Stderr = ''moov atom not found''\<rparr>
      else \<lparr>run_err = None, Stdout = ''streams'', Stderr = []\<rparr>)"


section \<open>Properties\<close>

lemma strings_Split_nonempty: "strings_Split s sep \<noteq> []"
  by (induction s) (auto split: list.splits)

lemma strings_Split_no_sep: "sep \<notin> set s \<Longrightarrow> strings_Split s sep = [s]"
  by (induction s) auto

lemma strings_Split_append:
  "sep \<notin> set a \<Longrightarrow> strings_Split (a @ sep # b) sep = a # strings_Split b sep"
  by (induction a) auto


subsection \<open>Rounding to binary64\<close>

lemma pow2_powi: "pow2 e = 2 powi e"
  by (simp add: pow2_def power_int_def inverse_eq_divide power_one_over)

lemma pow2_pos: "0 < pow2 e"
  by (simp add: pow2_powi)

lemma pow2_add: "pow2 (a + b) = pow2 a * pow2 b"
  by (simp add: pow2_powi power_int_add)

lemma pow2_mono: "a \<le> b \<Longrightarrow> pow2 a \<le> pow2 b"
  by (simp add: pow2_powi power_int_increasing)

lemma pow2_strict_mono: "a < b \<Longrightarrow> pow2 a < pow2 b"
  by (simp add: pow2_powi power_int_strict_increasing)

lemma pow2_less_iff: "pow2 a < pow2 b \<longleftrightarrow> a < b"
  using pow2_mono [of b a] pow2_strict_mono [of a b] by (cases "a < b") auto

lemma pow2_le_iff: "pow2 a \<le> pow2 b \<longleftrightarrow> a \<le> b"
  using pow2_mono [of a b] pow2_strict_mono [of b a] by (cases "a \<le> b") auto

lemma pow2_nat: "0 \<le> e \<Longrightarrow> pow2 e = 2 ^ nat e"
  by (simp add: pow2_def)

lemma pow2_Suc: "pow2 (e + 1) = 2 * pow2 e"
  using pow2_add [of e 1] by (simp add: pow2_nat)

lemma pow2_half: "pow2 (e - 1) = pow2 e / 2"
  using pow2_add [of "e - 1" 1] by (simp add: pow2_def)

lemma exponent_bounds:
  assumes "x \<noteq> 0"
  shows "pow2 (exponent x) \<le> \<bar>x\<bar> \<and> \<bar>x\<bar> < pow2 (exponent x + 1)"
proof (cases "1 \<le> \<bar>x\<bar>")
  case True
  define n where "n = \<lfloor>\<bar>x\<bar>\<rfloor>"
  have n: "0 < n" using True by (simp add: n_def)
  have e: "exponent x = bitlen n - 1" using True by (simp add: exponent_def n_def)
  from bitlen_bounds [OF n] have lo: "2 ^ nat (bitlen n - 1) \<le> n" and hi: "n < 2 ^ nat (bitlen n)"
    by simp_all
  have b1: "1 \<le> bitlen n" using n by (simp add: bitlen_alt_def)
  have "pow2 (exponent x) = of_int (2 ^ nat (bitlen n - 1))"
    using b1 by (simp add: e pow2_def)
  also have "\<dots> \<le> of_int n" using lo by (simp only: of_int_le_iff)
  also have "\<dots> \<le> \<bar>x\<bar>" by (simp add: n_def)
  finally have A: "pow2 (exponent x) \<le> \<bar>x\<bar>" .
  have "\<bar>x\<bar> < of_int (n + 1)" unfolding n_def by linarith
  also have "\<dots> \<le> of_int (2 ^ nat (bitlen n))" using hi by (simp only: of_int_le_iff)
  also have "\<dots> = pow2 (exponent x + 1)" using b1 by (simp add: e pow2_def)
  finally show ?thesis using A by simp
next
  case False
  define r where "r = 1 / \<bar>x\<bar>"
  define n where "n = \<lceil>r\<rceil> - 1"
  have xpos: "0 < \<bar>x\<bar>" using assms by simp
  have r1: "1 < r" using False xpos by (simp add: r_def)
  have n: "0 < n" using r1 unfolding n_def by linarith
  have e: "exponent x = - bitlen n" using False by (simp add: exponent_def n_def r_def)
  from bitlen_bounds [OF n] have lo: "2 ^ nat (bitlen n - 1) \<le> n" and hi: "n < 2 ^ nat (bitlen n)"
    by simp_all
  have b1: "1 \<le> bitlen n" using n by (simp add: bitlen_alt_def)
  have "r \<le> of_int (n + 1)" unfolding n_def by simp
  also have "\<dots> \<le> of_int (2 ^ nat (bitlen n))" using hi by (simp only: of_int_le_iff)
  finally have "r \<le> 2 ^ nat (bitlen n)" by simp
  then have "1 \<le> 2 ^ nat (bitlen n) * \<bar>x\<bar>"
    using xpos by (simp add: r_def field_simps)
  then have A: "pow2 (exponent x) \<le> \<bar>x\<bar>"
    using b1 by (simp add: e pow2_def field_simps)
  have "of_int (2 ^ nat (bitlen n - 1)) \<le> (of_int n :: rat)" using lo by (simp only: of_int_le_iff)
  also have "(of_int n :: rat) < r" unfolding n_def by linarith
  finally have "2 ^ nat (bitlen n - 1) < r" by simp
  then have "\<bar>x\<bar> < 1 / 2 ^ nat (bitlen n - 1)"
    using xpos by (simp add: r_def field_simps)
  moreover have "pow2 (exponent x + 1) = 1 / 2 ^ nat (bitlen n - 1)"
    using b1 by (cases "bitlen n = 1") (simp_all add: e pow2_def)
  ultimately have B: "\<bar>x\<bar> < pow2 (exponent x + 1)"
    by simp
  show ?thesis using A B by simp
qed

lemma exponent_unique:
  assumes "pow2 e \<le> \<bar>x\<bar>" "\<bar>x\<bar> < pow2 (e + 1)"
  shows "exponent x = e"
proof -
  have "x \<noteq> 0" using assms(1) pow2_pos [of e] by auto
  from exponent_bounds [OF this] have "pow2 (exponent x) \<le> \<bar>x\<bar>" "\<bar>x\<bar> < pow2 (exponent x + 1)"
    by simp_all
  with assms have "pow2 e < pow2 (exponent x + 1)" "pow2 (exponent x) < pow2 (e + 1)"
    by linarith+
  then show ?thesis by (simp add: pow2_less_iff)
qed

lemma exponent_le:
  assumes "x \<noteq> 0" "\<bar>x\<bar> < pow2 (e + 1)"
  shows "exponent x \<le> e"
proof -
  from exponent_bounds [OF assms(1)] assms(2) have "pow2 (exponent x) < pow2 (e + 1)" by linarith
  then show ?thesis by (simp add: pow2_less_iff)
qed

lemma roundToEven_error: "\<bar>of_int (roundToEven y) - y\<bar> \<le> 1 / 2"
proof -
  have "of_int \<lfloor>y\<rfloor> \<le> y" "y < of_int \<lfloor>y\<rfloor> + 1" by linarith+
  then show ?thesis
    by (auto simp: roundToEven_def Let_def)
qed

lemma roundToEven_unique:
  assumes "\<bar>y - of_int m\<bar> < 1 / 2"
  shows "roundToEven y = m"
proof -
  have f: "of_int \<lfloor>y\<rfloor> \<le> y" "y < of_int \<lfloor>y\<rfloor> + 1" by linarith+
  have a: "y - of_int m < 1 / 2" "- (1 / 2) < y - of_int m" using assms by linarith+
  have "\<lfloor>y\<rfloor> = m \<or> \<lfloor>y\<rfloor> = m - 1" using assms f by linarith
  then show ?thesis
  proof
    assume "\<lfloor>y\<rfloor> = m"
    then show ?thesis using a by (auto simp: roundToEven_def Let_def)
  next
    assume "\<lfloor>y\<rfloor> = m - 1"
    then show ?thesis using a by (auto simp: roundToEven_def Let_def)
  qed
qed

lemma roundToEven_of_int: "roundToEven (of_int m) = m"
  by (rule roundToEven_unique) simp

lemma fl_core:
  assumes "x \<noteq> 0"
  defines "e \<equiv> max (exponent x) (- 1022)"
  defines "y \<equiv> of_int (roundToEven (x / pow2 (e - 52))) * pow2 (e - 52)"
  shows "\<bar>y - x\<bar> \<le> pow2 (e - 53)"
    and "\<bar>y\<bar> < 2 ^ 1024 \<Longrightarrow> fl x = Finite y"
proof -
  let ?q = "pow2 (e - 52)"
  have q: "0 < ?q" by (rule pow2_pos)
  have "\<bar>of_int (roundToEven (x / ?q)) - x / ?q\<bar> \<le> 1 / 2" by (rule roundToEven_error)
  then have "\<bar>of_int (roundToEven (x / ?q)) - x / ?q\<bar> * ?q \<le> 1 / 2 * ?q"
    using q by (simp only: mult_le_cancel_right) simp
  moreover have "\<bar>of_int (roundToEven (x / ?q)) - x / ?q\<bar> * ?q = \<bar>y - x\<bar>"
  proof -
    have "\<bar>of_int (roundToEven (x / ?q)) - x / ?q\<bar> * ?q
        = \<bar>(of_int (roundToEven (x / ?q)) - x / ?q) * ?q\<bar>"
      using q by (simp add: abs_mult)
    also have "(of_int (roundToEven (x / ?q)) - x / ?q) * ?q = y - x"
      using q by (simp add: y_def algebra_simps)
    finally show ?thesis .
  qed
  moreover have "1 / 2 * ?q = pow2 (e - 53)"
    using pow2_half [of "e - 52"] by simp
  ultimately show "\<bar>y - x\<bar> \<le> pow2 (e - 53)" by simp
  show "fl x = Finite y" if "\<bar>y\<bar> < 2 ^ 1024"
    using that assms(1) by (simp add: fl_def Let_def e_def y_def)
qed

lemma pow2_1024: "pow2 1024 = 2 ^ 1024"
  by (simp add: pow2_def)

lemma fl_abs_error:
  assumes "\<bar>x\<bar> < pow2 (E + 1)" "- 1022 \<le> E" "E \<le> 1022"
  shows "\<exists>y. fl x = Finite y \<and> \<bar>y - x\<bar> \<le> pow2 (E - 53)"
proof (cases "x = 0")
  case True
  then show ?thesis using pow2_pos [of "E - 53"] by (simp add: fl_def)
next
  case False
  define e where "e = max (exponent x) (- 1022)"
  define y where "y = of_int (roundToEven (x / pow2 (e - 52))) * pow2 (e - 52)"
  have "e \<le> E" using exponent_le [OF False assms(1)] assms(2) by (simp add: e_def)
  then have "pow2 (e - 53) \<le> pow2 (E - 53)" by (simp add: pow2_le_iff)
  moreover have err: "\<bar>y - x\<bar> \<le> pow2 (e - 53)"
    unfolding y_def e_def by (rule fl_core(1) [OF False])
  ultimately have 1: "\<bar>y - x\<bar> \<le> pow2 (E - 53)" by simp
  have "pow2 (E - 53) \<le> pow2 (E + 1)" by (simp add: pow2_le_iff)
  with 1 assms(1) have "\<bar>y\<bar> < pow2 (E + 1) + pow2 (E + 1)" by linarith
  also have "\<dots> = pow2 (E + 2)" using pow2_Suc [of "E + 1"] by (simp add: add.commute)
  also have "\<dots> \<le> pow2 1024" using assms(3) by (simp add: pow2_le_iff)
  finally have "\<bar>y\<bar> < 2 ^ 1024" by (simp add: pow2_1024)
  then have "fl x = Finite y"
    unfolding y_def e_def by (rule fl_core(2) [OF False])
  with 1 show ?thesis by blast
qed


lemma fl_eqI:
  assumes "pow2 e \<le> \<bar>x\<bar>" "\<bar>x\<bar> < pow2 (e + 1)" "- 1022 \<le> e" "e \<le> 1022"
    and "\<bar>x / pow2 (e - 52) - of_int m\<bar> < 1 / 2"
  shows "fl x = Finite (of_int m * pow2 (e - 52))"
proof -
  have nz: "x \<noteq> 0" using assms(1) pow2_pos [of e] by auto
  have ex: "exponent x = e" using assms(1,2) by (rule exponent_unique)
  have e: "max (exponent x) (- 1022) = e" using assms(3) by (simp add: ex)
  have r: "roundToEven (x / pow2 (e - 52)) = m" using assms(5) by (rule roundToEven_unique)
  from fl_abs_error [OF assms(2,3,4)] obtain y where y: "fl x = Finite y" by blast
  then show ?thesis
    using nz by (simp add: fl_def Let_def e r split: if_splits)
qed




lemma fl_16_9: "fl (16 / 9) = Finite (2001599834386887 / 2 ^ 50)"
  using fl_eqI [of 0 "16 / 9" 8006399337547548] by (simp add: pow2_def)

lemma fl_1_10: "fl (1 / 10) = Finite (3602879701896397 / 2 ^ 55)"
  using fl_eqI [of "- 4" "1 / 10" 7205759403792794] by (simp add: pow2_def)




lemma fl_0: "fl 0 = Finite 0"
  by (simp add: fl_def)


lemma pow2_neg_numeral: "pow2 (- numeral k) = 1 / 2 ^ numeral k"
  by (simp add: pow2_def)




subsection \<open>The classification against exact arithmetic\<close>








subsection \<open>Strings, keys and the encoding\<close>


lemma getFilename_no_slash: "CHR ''/'' \<notin> set mediaType \<Longrightarrow> getFilename mediaType r = Panic"
  by (simp add: getFilename_def strings_Split_no_sep index_def)


lemma enc_in_alphabet: "enc i \<in> set encodeURL"
proof -
  have "length encodeURL = 64" by (simp add: encodeURL_def)
  then have "i mod 64 < length encodeURL" by simp
  then show ?thesis unfolding enc_def by (rule nth_mem)
qed

lemma EncodeToString_alphabet: "set (EncodeToString bs) \<subseteq> set encodeURL"
  by (induction bs rule: EncodeToString.induct) (simp_all add: Let_def enc_in_alphabet)

lemma comma_not_in_alphabet: "CHR '','' \<notin> set encodeURL"
  by (simp add: encodeURL_def)

lemma EncodeToString_no_comma: "CHR '','' \<notin> set (EncodeToString bs)"
  using EncodeToString_alphabet [of bs] comma_not_in_alphabet by blast

lemma aspectRatio_cases: "aspectRatio w h \<in> {''16:9'', ''9:16'', ''other''}"
  by (simp add: aspectRatio_def Let_def)

lemma prefixes_aspectRatio: "prefixes (aspectRatio w h) \<in> {''landscape'', ''portrait'', ''other''}"
  using aspectRatio_cases [of w h] by (auto simp: prefixes_def)

lemma replicate_32: "replicate 32 (0 :: byte) = [0, 0, 0, 0, 0, 0, 0, 0, 0, 0, 0, 0, 0, 0, 0, 0, 0, 0, 0, 0, 0, 0, 0, 0, 0, 0, 0, 0, 0, 0, 0, 0]"
  by (simp add: numeral_eq_Suc)

lemma EncodeToString_zeros:
  "EncodeToString (replicate 32 (0 :: byte)) = ''AAAAAAAAAAAAAAAAAAAAAAAAAAAAAAAAAAAAAAAAAAA''"
  unfolding replicate_32 by (simp add: enc_def encodeURL_def)

subsection \<open>Running the handlers\<close>

lemma fl_1920: "fl 1920 = Finite 1920"
  using fl_eqI [of 10 1920 "1920 * 2 ^ 42"] by (simp add: pow2_def)

lemma fl_1080: "fl 1080 = Finite 1080"
  using fl_eqI [of 10 1080 "1080 * 2 ^ 42"] by (simp add: pow2_def)

lemma aspectRatio_1920_1080: "aspectRatio 1920 1080 = ''16:9''"
  by (simp add: aspectRatio_def float64_of_int_def fl_1920 fl_1080 fl_16_9 fl_1_10 fl_0)

lemmas world_ops =
  log_def respondWithError_def respondWithJSON_def GetVideo_def UpdateVideo_def
  os_CreateTemp_def os_Create_def os_Remove_def write_err_def

lemmas video_handler =
  handlerUploadVideo_def stage_def store_def publish_def

lemma demo_getFilename:
  "getFilename ''video/mp4'' (Inr (replicate 32 0))
     = Returned ''AAAAAAAAAAAAAAAAAAAAAAAAAAAAAAAAAAAAAAAAAAA.mp4''"
  by (simp add: getFilename_def index_def EncodeToString_zeros)

lemma demo_probe:
  "getVideoAspectRatio (\<lambda>args. \<lparr>run_err = None, Stdout = out, Stderr = err\<rparr>)
     (\<lambda>out. Inr \<lparr>Streams = [\<lparr>Width = 1920, Height = 1080\<rparr>]\<rparr>) name = Inr ''16:9''"
  by (simp add: getVideoAspectRatio_def aspectRatio_1920_1080)

lemma demo_run:
  "handlerUploadVideo demo_cfg demo_env demo_world =
     (\<lparr>calls =
        [Call_GetVideo ''v1'',
         Call_CreateTemp ''/tmp'' ''tubely-upload.mp4'',
         Call_Copy (Some ''/tmp/tubely-upload.mp4123''),
         Call_Run (ffprobe_args ''/tmp/tubely-upload.mp4123''),
         Call_UpdateVideo (demo_video\<lparr>VideoURL :=
           Some ''tubely,landscape/AAAAAAAAAAAAAAAAAAAAAAAAAAAAAAAAAAAAAAAAAAA.mp4''\<rparr>),
         Call_Run (ffmpeg_args ''/tmp/tubely-upload.mp4123'' ''/tmp/tubely-upload.mp4123.processed''),
         Call_Open ''/tmp/tubely-upload.mp4123.processed'',
         Call_PutObject ''tubely'' ''landscape/AAAAAAAAAAAAAAAAAAAAAAAAAAAAAAAAAAAAAAAAAAA.mp4''
           ''/tmp/tubely-upload.mp4123.processed'' ''video/mp4'',
         Call_Remove ''/tmp/tubely-upload.mp4123.processed'',
         Call_Remove ''/tmp/tubely-upload.mp4''],
       files = {''/tmp/tubely-upload.mp4123''},
       db = [''v1'' \<mapsto> demo_video\<lparr>VideoURL :=
           Some ''tubely,landscape/AAAAAAAAAAAAAAAAAAAAAAAAAAAAAAAAAAAAAAAAAAA.mp4''\<rparr>]\<rparr>,
      Returns)"
  by (simp add: video_handler world_ops demo_env_def demo_cfg_def demo_world_def demo_video_def
      demo_getFilename demo_probe dbVideoToSignedVideo_def generatePresignedURL_def
      processVideoForFastStart_def prefixes_def ffmpeg_args_def ffprobe_args_def Let_def)

lemma db_log [simp]: "db (log c w) = db w"
  by (simp add: log_def)

lemma db_respondWithError [simp]: "db (respondWithError code msg w) = db w"
  by (simp add: respondWithError_def)

lemma db_os_Remove [simp]: "db (os_Remove name w) = db w"
  by (simp add: os_Remove_def log_def)

lemma db_UpdateVideo:
  "UpdateVideo_err E = None \<Longrightarrow> db (UpdateVideo E video w) = (db w)(ID video \<mapsto> video)"
  by (simp add: UpdateVideo_def log_def)

lemma db_publish [simp]: "db (fst (publish cfg E mediaType key name w)) = db w"
  by (simp add: publish_def Let_def split: sum.splits option.splits)

lemma handler_authorized:
  assumes "uuid_Parse E = Inr videoID" "GetBearerToken E = Inr token" "ValidateJWT E = Inr userID"
    and "ParseMultipartForm E = None" "FormFile E = None" "GetVideo_err E = None"
    and "db w videoID = Some metadata" "UserID metadata = userID"
  shows "handlerUploadVideo cfg E w = stage cfg E metadata (log (Call_GetVideo videoID) w)"
  using assms by (simp add: handlerUploadVideo_def GetVideo_def)

lemmas demo_defs = demo_env_def demo_cfg_def demo_world_def demo_video_def

lemmas pipeline_defs =
  video_handler world_ops dbVideoToSignedVideo_def generatePresignedURL_def
  processVideoForFastStart_def prefixes_def ffmpeg_args_def ffprobe_args_def Let_def

section \<open>The claims\<close>



text \<open>
  C8: the normaliser runs \<^verbatim>\<open>ffmpeg\<close> with the input path as its input and the input path
  followed by \<^verbatim>\<open>.processed\<close> as its output; when the run succeeds it returns that output path,
  and when the run fails it returns no path but an error whose text ends with the standard
  error output of the process.
\<close>

theorem processVideoForFastStart_result:
  "(run_err (R (ffmpeg_args p (p @ ''.processed''))) = None \<longrightarrow>
      processVideoForFastStart R p = Inr (p @ ''.processed''))
   \<and> (\<forall>err. run_err (R (ffmpeg_args p (p @ ''.processed''))) = Some err \<longrightarrow>
      processVideoForFastStart R p =
        Inl (Err (''ffmpeg error: '' @ Error err @ '', stderr: ''
                  @ Stderr (R (ffmpeg_args p (p @ ''.processed''))))))
   \<and> ffmpeg_args p (p @ ''.processed'') ! 2 = p
   \<and> last (ffmpeg_args p (p @ ''.processed'')) = p @ ''.processed''"
  by (simp add: processVideoForFastStart_def ffmpeg_args_def Let_def)

theorem processVideoForFastStart_result_witness:
  "run_err (failing_ffmpeg (ffmpeg_args ''/tmp/a.mp4'' ''/tmp/a.mp4.processed'')) = Some (Err ''exit status 1'')
   \<and> processVideoForFastStart failing_ffmpeg ''/tmp/a.mp4''
       = Inl (Err ''ffmpeg error: exit status 1, stderr: moov atom not found'')
   \<and> run_err (Run demo_env (ffmpeg_args ''/tmp/a.mp4'' ''/tmp/a.mp4.processed'')) = None
   \<and> processVideoForFastStart (Run demo_env) ''/tmp/a.mp4'' = Inr ''/tmp/a.mp4.processed''"
  using processVideoForFastStart_result [of failing_ffmpeg "''/tmp/a.mp4''"]
    processVideoForFastStart_result [of "Run demo_env" "''/tmp/a.mp4''"]
  by (simp add: failing_ffmpeg_def ffmpeg_args_def demo_env_def)

text \<open>
  C10: a bucket and a key without a comma are recovered by splitting the stored string
  \<open>bucket,key\<close> at the comma, so the signing step signs that bucket and key and fails only when
  the presign client does; the keys the pipeline writes hold no comma when the subtype
  holds none; a record without a video location is returned as it is.
\<close>

theorem location_roundtrip:
  assumes "CHR '','' \<notin> set bucket" and "CHR '','' \<notin> set key"
  shows "strings_Split (bucket @ '','' @ key) CHR '','' = [bucket, key]
       \<and> dbVideoToSignedVideo P (video\<lparr>VideoURL := Some (bucket @ '','' @ key)\<rparr>)
           = (case P bucket key of
                Inl err \<Rightarrow> Inl err
              | Inr url \<Rightarrow> Inr (video\<lparr>VideoURL := Some url\<rparr>))
       \<and> (VideoURL video = None \<longrightarrow> dbVideoToSignedVideo P video = Inr video)
       \<and> (CHR '','' \<notin> set subtype \<longrightarrow>
            CHR '','' \<notin> set (prefixes (aspectRatio w h) @ ''/'' @ EncodeToString b @ ''.'' @ subtype))"
proof -
  have s: "strings_Split (bucket @ '','' @ key) CHR '','' = [bucket, key]"
    using assms by (simp add: strings_Split_append strings_Split_no_sep)
  have d: "dbVideoToSignedVideo P (video\<lparr>VideoURL := Some (bucket @ '','' @ key)\<rparr>)
           = (case P bucket key of
                Inl err \<Rightarrow> Inl err
              | Inr url \<Rightarrow> Inr (video\<lparr>VideoURL := Some url\<rparr>))"
    using s by (simp add: dbVideoToSignedVideo_def generatePresignedURL_def split: sum.splits)
  have n: "VideoURL video = None \<longrightarrow> dbVideoToSignedVideo P video = Inr video"
    by (simp add: dbVideoToSignedVideo_def)
  have k: "CHR '','' \<notin> set subtype \<longrightarrow>
            CHR '','' \<notin> set (prefixes (aspectRatio w h) @ ''/'' @ EncodeToString b @ ''.'' @ subtype)"
    using prefixes_aspectRatio [of w h] EncodeToString_no_comma [of b] by auto
  from s d n k show ?thesis by blast
qed

theorem location_roundtrip_witness:
  "CHR '','' \<notin> set ''tubely'' \<and> CHR '','' \<notin> set ''landscape/AAAA.mp4''
   \<and> strings_Split ''tubely,landscape/AAAA.mp4'' CHR '','' = [''tubely'', ''landscape/AAAA.mp4'']
   \<and> dbVideoToSignedVideo (PresignGetObject demo_env)
        (demo_video\<lparr>VideoURL := Some ''tubely,landscape/AAAA.mp4''\<rparr>)
       = Inr (demo_video\<lparr>VideoURL := Some ''https://tubely/landscape/AAAA.mp4''\<rparr>)
   \<and> VideoURL demo_video = None
   \<and> dbVideoToSignedVideo (PresignGetObject demo_env) demo_video = Inr demo_video"
proof -
  have h: "CHR '','' \<notin> set ''tubely''" "CHR '','' \<notin> set ''landscape/AAAA.mp4''"
    by simp_all
  from location_roundtrip [OF h, of "PresignGetObject demo_env" demo_video "''mp4''"]
  show ?thesis
    by (simp add: demo_env_def demo_video_def)
qed



text \<open>
  C7: the prefix table sends 16:9 to \<open>landscape\<close>, 9:16 to \<open>portrait\<close> and \<open>other\<close> to \<open>other\<close>;
  an authorised mp4 upload whose probe yields the class \<open>aspect\<close> stores, for the record, the
  location \<open>bucket,prefix/key\<close> with the configured bucket and the generated key, and a bucket
  upload that follows uses that bucket and that prefixed key.
\<close>

theorem video_key_prefix:
  assumes "uuid_Parse E = Inr videoID" and "GetBearerToken E = Inr token"
    and "ValidateJWT E = Inr userID" and "ParseMultipartForm E = None" and "FormFile E = None"
    and "GetVideo_err E = None" and "db w videoID = Some metadata"
    and "UserID metadata = userID"
    and "ParseMediaType E = (''video/mp4'', None)" and "CreateTemp E = Inr random"
    and "rand_Read E = Inr b"
    and "getVideoAspectRatio (Run E) (Unmarshal E) (''/tmp/tubely-upload.mp4'' @ random) = Inr aspect"
    and "UpdateVideo_err E = None"
  shows "prefixes ''16:9'' = ''landscape'' \<and> prefixes ''9:16'' = ''portrait''
       \<and> prefixes ''other'' = ''other''
       \<and> db (fst (handlerUploadVideo cfg E w)) (ID metadata) =
           Some (metadata\<lparr>VideoURL :=
             Some (s3Bucket cfg @ '','' @ prefixes aspect @ ''/'' @ EncodeToString b @ ''.mp4'')\<rparr>)
       \<and> (\<forall>signed.
             dbVideoToSignedVideo (PresignGetObject E)
               (metadata\<lparr>VideoURL :=
                  Some (s3Bucket cfg @ '','' @ prefixes aspect @ ''/'' @ EncodeToString b @ ''.mp4'')\<rparr>)
               = Inr signed
             \<and> run_err (Run E (ffmpeg_args (''/tmp/tubely-upload.mp4'' @ random)
                   (''/tmp/tubely-upload.mp4'' @ random @ ''.processed''))) = None
             \<and> Open E = None \<longrightarrow>
             Call_PutObject (s3Bucket cfg) (prefixes aspect @ ''/'' @ EncodeToString b @ ''.mp4'')
                 (''/tmp/tubely-upload.mp4'' @ random @ ''.processed'') ''video/mp4''
               \<in> set (calls (fst (handlerUploadVideo cfg E w))))"
proof -
  define name where "name = ''/tmp/tubely-upload.mp4'' @ random"
  define key where "key = prefixes aspect @ ''/'' @ EncodeToString b @ ''.mp4''"
  define metadata1 where "metadata1 = metadata\<lparr>VideoURL := Some (s3Bucket cfg @ '','' @ key)\<rparr>"
  have k: "getFilename ''video/mp4'' (rand_Read E) = Returned (EncodeToString b @ ''.mp4'')"
    using assms(11) by (simp add: getFilename_def index_def)
  have a: "handlerUploadVideo cfg E w = stage cfg E metadata (log (Call_GetVideo videoID) w)"
    using assms(1-8) by (rule handler_authorized)
  have g: "getVideoAspectRatio (Run E) (Unmarshal E) name = Inr aspect"
    using assms(12) by (simp add: name_def)
  have s: "stage cfg E metadata w' =
      (os_Remove ''/tmp/tubely-upload.mp4''
         (fst (store cfg E metadata ''video/mp4'' (Some name) (stage_world w'))),
       snd (store cfg E metadata ''video/mp4'' (Some name) (stage_world w')))"
    if "stage_world = (\<lambda>w'. (case Seek E of
              Some err \<Rightarrow> respondWithError 500 ''Unable to reset pointer''
              | None \<Rightarrow> (\<lambda>w. w))
            ((case Copy E of
              Some err \<Rightarrow> respondWithError 500 ''Unable to write to temporary file''
              | None \<Rightarrow> (\<lambda>w. w))
             (log (Call_Copy (Some name))
               (log (Call_CreateTemp ''/tmp'' ''tubely-upload.mp4'')
                  (w'\<lparr>files := insert name (files w')\<rparr>)))))" for w' stage_world
    using assms(9,10) unfolding that
    by (cases "Seek E"; cases "Copy E")
       (simp_all add: stage_def os_CreateTemp_def write_err_def Let_def name_def)
  have p: "prefixes ''16:9'' = ''landscape'' \<and> prefixes ''9:16'' = ''portrait''
       \<and> prefixes ''other'' = ''other''"
    by (simp add: prefixes_def)
  have st: "db (fst (store cfg E metadata ''video/mp4'' (Some name) w')) (ID metadata)
      = Some metadata1" for w'
    using g assms(13) k
    by (simp add: store_def Let_def db_UpdateVideo metadata1_def key_def split: sum.splits)
  have d: "db (fst (handlerUploadVideo cfg E w)) (ID metadata) = Some metadata1"
    unfolding a by (subst s [OF refl]) (simp add: st)
  have pub: "Call_PutObject (s3Bucket cfg) key (name @ ''.processed'') ''video/mp4''
      \<in> set (calls (fst (publish cfg E ''video/mp4'' key name w')))"
    if "run_err (Run E (ffmpeg_args name (name @ ''.processed''))) = None" "Open E = None" for w'
    using that
    by (cases "PutObject E")
       (simp_all add: publish_def processVideoForFastStart_def Let_def log_def os_Remove_def
          respondWithError_def)
  have sto: "Call_PutObject (s3Bucket cfg) key (name @ ''.processed'') ''video/mp4''
      \<in> set (calls (fst (store cfg E metadata ''video/mp4'' (Some name) w')))"
    if "dbVideoToSignedVideo (PresignGetObject E) metadata1 = Inr signed"
       "run_err (Run E (ffmpeg_args name (name @ ''.processed''))) = None" "Open E = None"
    for w' signed
    using that(1) g k pub [OF that(2,3)]
    by (simp add: store_def Let_def metadata1_def key_def)
  have c: "Call_PutObject (s3Bucket cfg) key (name @ ''.processed'') ''video/mp4''
      \<in> set (calls (fst (handlerUploadVideo cfg E w)))"
    if "dbVideoToSignedVideo (PresignGetObject E) metadata1 = Inr signed"
       "run_err (Run E (ffmpeg_args name (name @ ''.processed''))) = None" "Open E = None"
    for signed
    unfolding a using sto [OF that]
    by (subst s [OF refl]) (simp add: os_Remove_def log_def)
  from p d c show ?thesis
    unfolding metadata1_def key_def name_def by (simp only: append_assoc) blast
qed

theorem video_key_prefix_witness:
  "uuid_Parse demo_env = Inr ''v1'' \<and> GetBearerToken demo_env = Inr ''token''
   \<and> ValidateJWT demo_env = Inr ''alice'' \<and> ParseMultipartForm demo_env = None
   \<and> FormFile demo_env = None \<and> GetVideo_err demo_env = None
   \<and> db demo_world ''v1'' = Some demo_video \<and> UserID demo_video = ''alice''
   \<and> ParseMediaType demo_env = (''video/mp4'', None) \<and> CreateTemp demo_env = Inr ''123''
   \<and> rand_Read demo_env = Inr (replicate 32 0)
   \<and> getVideoAspectRatio (Run demo_env) (Unmarshal demo_env) ''/tmp/tubely-upload.mp4123''
       = Inr ''16:9''
   \<and> UpdateVideo_err demo_env = None
   \<and> Open demo_env = None
   \<and> db (fst (handlerUploadVideo demo_cfg demo_env demo_world)) ''v1'' =
       Some (demo_video\<lparr>VideoURL :=
         Some ''tubely,landscape/AAAAAAAAAAAAAAAAAAAAAAAAAAAAAAAAAAAAAAAAAAA.mp4''\<rparr>)
   \<and> Call_PutObject ''tubely'' ''landscape/AAAAAAAAAAAAAAAAAAAAAAAAAAAAAAAAAAAAAAAAAAA.mp4''
         ''/tmp/tubely-upload.mp4123.processed'' ''video/mp4''
       \<in> set (calls (fst (handlerUploadVideo demo_cfg demo_env demo_world)))"
proof -
  have h: "uuid_Parse demo_env = Inr ''v1''" "GetBearerToken demo_env = Inr ''token''"
    "ValidateJWT demo_env = Inr ''alice''" "ParseMultipartForm demo_env = None"
    "FormFile demo_env = None" "GetVideo_err demo_env = None"
    "db demo_world ''v1'' = Some demo_video" "UserID demo_video = ''alice''"
    "ParseMediaType demo_env = (''video/mp4'', None)" "CreateTemp demo_env = Inr ''123''"
    "rand_Read demo_env = Inr (replicate 32 0)"
    "getVideoAspectRatio (Run demo_env) (Unmarshal demo_env) (''/tmp/tubely-upload.mp4'' @ ''123'')
       = Inr ''16:9''"
    "UpdateVideo_err demo_env = None"
    by (simp_all add: demo_env_def demo_world_def demo_video_def demo_probe)
  have o: "Open demo_env = None"
    and r: "run_err (Run demo_env args) = None" for args
    by (simp_all add: demo_env_def)
  have s: "dbVideoToSignedVideo (PresignGetObject demo_env)
      (demo_video\<lparr>VideoURL :=
         Some ''tubely,landscape/AAAAAAAAAAAAAAAAAAAAAAAAAAAAAAAAAAAAAAAAAAA.mp4''\<rparr>)
      = Inr (demo_video\<lparr>VideoURL :=
         Some ''https://tubely/landscape/AAAAAAAAAAAAAAAAAAAAAAAAAAAAAAAAAAAAAAAAAAA.mp4''\<rparr>)"
    by (simp add: dbVideoToSignedVideo_def generatePresignedURL_def demo_env_def demo_video_def)
  from video_key_prefix [OF h, of demo_cfg] h o r s show ?thesis
    by (simp add: EncodeToString_zeros demo_cfg_def demo_video_def prefixes_def)
qed

text \<open>
  C1, at a request whose \<^verbatim>\<open>ffmpeg\<close> run exits with status 1: the handler has stored the
  location in the record before it runs \<^verbatim>\<open>ffmpeg\<close>; it answers 500 and puts nothing into the
  bucket, and the record keeps the location.
\<close>

theorem record_updated_before_transcode:
  "handlerUploadVideo demo_cfg (demo_env\<lparr>Run := failing_ffmpeg\<rparr>) demo_world =
     (\<lparr>calls =
        [Call_GetVideo ''v1'',
         Call_CreateTemp ''/tmp'' ''tubely-upload.mp4'',
         Call_Copy (Some ''/tmp/tubely-upload.mp4123''),
         Call_Run [''ffprobe'', ''-v'', ''error'', ''-print_format'', ''json'', ''-show_streams'',
                   ''/tmp/tubely-upload.mp4123''],
         Call_UpdateVideo (demo_video\<lparr>VideoURL :=
           Some ''tubely,landscape/AAAAAAAAAAAAAAAAAAAAAAAAAAAAAAAAAAAAAAAAAAA.mp4''\<rparr>),
         Call_Run [''ffmpeg'', ''-i'', ''/tmp/tubely-upload.mp4123'', ''-c'', ''copy'', ''-movflags'',
                   ''faststart'', ''-f'', ''mp4'', ''/tmp/tubely-upload.mp4123.processed''],
         Respond 500 ''Unable to upload video to s3'',
         Call_Remove ''/tmp/tubely-upload.mp4''],
       files = {''/tmp/tubely-upload.mp4123''},
       db = [''v1'' \<mapsto> demo_video\<lparr>VideoURL :=
           Some ''tubely,landscape/AAAAAAAAAAAAAAAAAAAAAAAAAAAAAAAAAAAAAAAAAAA.mp4''\<rparr>]\<rparr>,
      Returns)"
proof -
  have probe: "getVideoAspectRatio failing_ffmpeg
      (\<lambda>out. Inr \<lparr>Streams = [\<lparr>Width = 1920, Height = 1080\<rparr>]\<rparr>) name = Inr ''16:9''" for name
    by (simp add: getVideoAspectRatio_def aspectRatio_1920_1080 failing_ffmpeg_def ffprobe_args_def)
  have ffmpeg: "failing_ffmpeg (''ffmpeg'' # args) =
      \<lparr>run_err = Some (Err ''exit status 1''), Stdout = [], Stderr = ''moov atom not found''\<rparr>" for args
    by (simp add: failing_ffmpeg_def)
  show ?thesis
    by (simp add: pipeline_defs demo_defs demo_getFilename probe ffmpeg)
qed

text \<open>
  C3, at a request whose part is declared \<^verbatim>\<open>video/avi\<close>: the handler answers 400 and goes on;
  it creates the temporary file, probes and transcodes it, stores a location in the record and
  puts the object into the bucket.
\<close>

theorem avi_upload_runs_whole_pipeline:
  "handlerUploadVideo demo_cfg (demo_env\<lparr>ParseMediaType := (''video/avi'', None)\<rparr>) demo_world =
     (\<lparr>calls =
        [Call_GetVideo ''v1'',
         Respond 400 ''Video must be in mp4 format'',
         Call_CreateTemp ''/tmp'' ''tubely-upload.mp4'',
         Call_Copy (Some ''/tmp/tubely-upload.mp4123''),
         Call_Run [''ffprobe'', ''-v'', ''error'', ''-print_format'', ''json'', ''-show_streams'',
                   ''/tmp/tubely-upload.mp4123''],
         Call_UpdateVideo (demo_video\<lparr>VideoURL :=
           Some ''tubely,landscape/AAAAAAAAAAAAAAAAAAAAAAAAAAAAAAAAAAAAAAAAAAA.avi''\<rparr>),
         Call_Run [''ffmpeg'', ''-i'', ''/tmp/tubely-upload.mp4123'', ''-c'', ''copy'', ''-movflags'',
                   ''faststart'', ''-f'', ''mp4'', ''/tmp/tubely-upload.mp4123.processed''],
         Call_Open ''/tmp/tubely-upload.mp4123.processed'',
         Call_PutObject ''tubely'' ''landscape/AAAAAAAAAAAAAAAAAAAAAAAAAAAAAAAAAAAAAAAAAAA.avi''
           ''/tmp/tubely-upload.mp4123.processed'' ''video/avi'',
         Call_Remove ''/tmp/tubely-upload.mp4123.processed'',
         Call_Remove ''/tmp/tubely-upload.mp4''],
       files = {''/tmp/tubely-upload.mp4123''},
       db = [''v1'' \<mapsto> demo_video\<lparr>VideoURL :=
           Some ''tubely,landscape/AAAAAAAAAAAAAAAAAAAAAAAAAAAAAAAAAAAAAAAAAAA.avi''\<rparr>]\<rparr>,
      Returns)"
proof -
  have key: "getFilename ''video/avi'' (Inr (replicate 32 0))
     = Returned ''AAAAAAAAAAAAAAAAAAAAAAAAAAAAAAAAAAAAAAAAAAA.avi''"
    by (simp add: getFilename_def index_def EncodeToString_zeros)
  show ?thesis
    by (simp add: pipeline_defs demo_defs key demo_probe)
qed

text \<open>
  C4, at the successful upload: the temporary file is created under the pattern with a random
  suffix, the deferred removal names the pattern alone, and the staged file exists when the
  handler has returned.
\<close>

theorem staged_file_survives:
  "''/tmp/tubely-upload.mp4123'' \<in> files (fst (handlerUploadVideo demo_cfg demo_env demo_world))
   \<and> Call_Remove ''/tmp/tubely-upload.mp4''
       \<in> set (calls (fst (handlerUploadVideo demo_cfg demo_env demo_world)))
   \<and> Call_Remove ''/tmp/tubely-upload.mp4123''
       \<notin> set (calls (fst (handlerUploadVideo demo_cfg demo_env demo_world)))
   \<and> snd (handlerUploadVideo demo_cfg demo_env demo_world) = Returns"
  by (simp add: demo_run ffmpeg_args_def ffprobe_args_def)

text \<open>
  C9, at a request whose part has no Content-Type: the media type read is the empty string, the
  handler answers 500 and 400 and goes on to \<^verbatim>\<open>getFilename\<close>, which panics on the index.
\<close>

theorem missing_content_type_panics:
  "getFilename [] (rand_Read demo_env) = Panic
   \<and> handlerUploadVideo demo_cfg
       (demo_env\<lparr>ParseMediaType := ([], Some (Err ''mime: no media type''))\<rparr>) demo_world =
     (\<lparr>calls =
        [Call_GetVideo ''v1'',
         Respond 500 ''Unable to parse Content-Type header'',
         Respond 400 ''Video must be in mp4 format'',
         Call_CreateTemp ''/tmp'' ''tubely-upload.mp4'',
         Call_Copy (Some ''/tmp/tubely-upload.mp4123''),
         Call_Remove ''/tmp/tubely-upload.mp4''],
       files = {''/tmp/tubely-upload.mp4123''},
       db = [''v1'' \<mapsto> demo_video]\<rparr>,
      Panics)
   \<and> snd (handlerUploadThumbnail demo_cfg
       (demo_env\<lparr>ParseMediaType := ([], Some (Err ''mime: no media type''))\<rparr>) demo_world) = Panics"
proof -
  have key: "getFilename [] r = Panic" for r
    by (simp add: getFilename_def index_def)
  show ?thesis
    by (simp add: pipeline_defs demo_defs key handlerUploadThumbnail_def write_thumbnail_def)
qed




end
